theory Spec2Isabelle
  imports Main
begin

section \<open>Checkpoint hooks of the trainer\<close>

text \<open>
  A shallow embedding of \<^verbatim>\<open>colossalai/trainer/hooks/_checkpoint_hook.py\<close>: the two
  hooks \<^verbatim>\<open>SaveCheckpointHook\<close> and \<^verbatim>\<open>LoadCheckpointHook\<close>. Both hooks do nothing but
  call collaborators (the trainer, the logger, the path resolvers, the file system and
  \<^verbatim>\<open>torch.distributed\<close>), so a run of a hook is modelled by the list of the calls it
  made, in order, together with its outcome: a normal return or the exception that left
  the method.
\<close>

subsection \<open>Exceptions\<close>

text \<open>
  \<open>ZeroDivisionError\<close> is what Python's \<^verbatim>\<open>%\<close> raises on a zero divisor,
  \<open>FileNotFoundError\<close> carries the message built in \<^verbatim>\<open>before_train\<close>,
  \<open>AssertionError\<close> is the failed \<^verbatim>\<open>assert isinstance(trainer, Trainer)\<close> of the
  constructors, and \<open>Raised x\<close> is an exception \<open>x\<close> that a collaborator raised and
  that the hook lets through.
\<close>

type_synonym exn = string

datatype error =
    ZeroDivisionError
  | FileNotFoundError string
  | AssertionError
  | Raised exn

subsection \<open>Calls to collaborators\<close>

datatype event =
    IsDpRank0
  | TrainerSave "string option" string
  | LoggerInfo string
  | DistIsInitialized
  | DistBarrier
  | GetLatestCheckpointPath "string option"
  | GetCheckpointPath "string option" int
  | OspExists string
  | TrainerLoad string bool bool

text \<open>
  What the collaborators answer. \<open>cur_epoch\<close> is the attribute \<^verbatim>\<open>trainer.cur_epoch\<close>;
  every other field is a function or method that the hooks call, and each call returns a
  value (\<open>Inr\<close>) or raises (\<open>Inl\<close>).
\<close>

record env =
  cur_epoch :: int
  is_dp_rank_0 :: "exn + bool"
  save :: "string option \<Rightarrow> string \<Rightarrow> exn + unit"
  load :: "string \<Rightarrow> bool \<Rightarrow> bool \<Rightarrow> exn + unit"
  logger_info :: "string \<Rightarrow> exn + unit"
  dist_is_initialized :: "exn + bool"
  dist_barrier :: "exn + unit"
  get_latest_checkpoint_path :: "string option \<Rightarrow> exn + string"
  get_checkpoint_path :: "string option \<Rightarrow> int \<Rightarrow> exn + string"
  osp_exists :: "string \<Rightarrow> exn + bool"

subsection \<open>Runs: a trace of calls and an outcome\<close>

type_synonym 'a run = "event list \<times> (error + 'a)"

definition ret :: "'a \<Rightarrow> 'a run" where
  "ret v = ([], Inr v)"

definition raise :: "error \<Rightarrow> 'a run" where
  "raise e = ([], Inl e)"

text \<open>A pure computation that may raise, such as \<^verbatim>\<open>a % b\<close>.\<close>

definition lift :: "error + 'a \<Rightarrow> 'a run" where
  "lift r = ([], r)"

text \<open>
  A call to a collaborator: the call is recorded, then its answer is returned or its
  exception leaves the hook.
\<close>

definition call :: "event \<Rightarrow> exn + 'a \<Rightarrow> 'a run" where
  "call ev r = ([ev], case r of Inl x \<Rightarrow> Inl (Raised x) | Inr v \<Rightarrow> Inr v)"

text \<open>
  Sequencing of statements: when the first one raises, the rest is not run (there is no
  \<^verbatim>\<open>try\<close> in the file).
\<close>

definition bnd :: "'a run \<Rightarrow> ('a \<Rightarrow> 'b run) \<Rightarrow> 'b run" where
  "bnd m f =
     (case m of
        (tr, Inl e) \<Rightarrow> (tr, Inl e)
      | (tr, Inr v) \<Rightarrow> (case f v of (tr', r) \<Rightarrow> (tr @ tr', r)))"

abbreviation trace :: "'a run \<Rightarrow> event list" where
  "trace \<equiv> fst"

abbreviation outcome :: "'a run \<Rightarrow> error + 'a" where
  "outcome \<equiv> snd"

subsection \<open>Python's operators and formatting\<close>

text \<open>
  \<^verbatim>\<open>a % b\<close> on Python integers: the result has the sign of the divisor, as \<open>mod\<close> on
  \<open>int\<close> has, and a zero divisor raises where HOL would return \<open>a\<close>.
\<close>

definition py_mod :: "int \<Rightarrow> int \<Rightarrow> error + int" where
  "py_mod a b = (if b = 0 then Inl ZeroDivisionError else Inr (a mod b))"

text \<open>\<^verbatim>\<open>str\<close> of an integer and of an optional string, as an f-string formats them.\<close>

function str_nat :: "nat \<Rightarrow> string" where
  "str_nat n =
     (if n < 10 then [''0123456789'' ! n]
      else str_nat (n div 10) @ [''0123456789'' ! (n mod 10)])"
  by pat_completeness auto
termination
  by (relation "measure id") auto

declare str_nat.simps [simp del]

definition str_int :: "int \<Rightarrow> string" where
  "str_int i = (if i < 0 then CHR ''-'' # str_nat (nat (- i)) else str_nat (nat i))"

definition str_opt :: "string option \<Rightarrow> string" where
  "str_opt d = (case d of None \<Rightarrow> ''None'' | Some s \<Rightarrow> s)"

text \<open>The three f-strings of the file.\<close>

definition saved_message :: "int \<Rightarrow> string option \<Rightarrow> string" where
  "saved_message e d = ''checkpoint for epoch '' @ str_int e @ '' is saved to '' @ str_opt d"

definition loaded_message :: "string \<Rightarrow> string" where
  "loaded_message path = ''loaded checkpoint from '' @ path"

definition not_found_message :: "string \<Rightarrow> string" where
  "not_found_message path = ''checkpoint is not found at '' @ path"

subsection \<open>SaveCheckpointHook\<close>

record SaveCheckpointHook =
  interval :: int
  checkpoint_dir :: "string option"
  suffix :: string
  priority :: int

text \<open>
  \<^verbatim>\<open>__init__(self, trainer, interval=1, checkpoint_dir=None, suffix='', priority=0)\<close>.
  \<open>is_trainer\<close> says whether the \<^verbatim>\<open>trainer\<close> argument is a \<^verbatim>\<open>Trainer\<close>; a keyword
  argument left out is \<open>None\<close> and takes its default. The arguments are stored as they
  come: the constructor checks nothing about \<^verbatim>\<open>interval\<close>.
\<close>

definition SaveCheckpointHook_init ::
  "bool \<Rightarrow> int option \<Rightarrow> string option \<Rightarrow> string option \<Rightarrow> int option
     \<Rightarrow> error + SaveCheckpointHook" where
  "SaveCheckpointHook_init is_trainer interval_arg checkpoint_dir_arg suffix_arg priority_arg =
     (if \<not> is_trainer then Inl AssertionError
      else Inr \<lparr>interval = (case interval_arg of None \<Rightarrow> 1 | Some i \<Rightarrow> i),
                checkpoint_dir = checkpoint_dir_arg,
                suffix = (case suffix_arg of None \<Rightarrow> [] | Some s \<Rightarrow> s),
                priority = (case priority_arg of None \<Rightarrow> 0 | Some p \<Rightarrow> p)\<rparr>)"

definition after_train_epoch :: "SaveCheckpointHook \<Rightarrow> env \<Rightarrow> unit run" where
  "after_train_epoch self w =
     bnd (lift (py_mod (cur_epoch w) (interval self))) (\<lambda>r.
       if r = 0 then
         bnd (call IsDpRank0 (is_dp_rank_0 w)) (\<lambda>rank_0.
         bnd (if rank_0 then
                bnd (call (TrainerSave (checkpoint_dir self) (suffix self))
                          (save w (checkpoint_dir self) (suffix self))) (\<lambda>_.
                call (LoggerInfo (saved_message (cur_epoch w) (checkpoint_dir self)))
                     (logger_info w (saved_message (cur_epoch w) (checkpoint_dir self))))
              else ret ()) (\<lambda>_.
         bnd (call DistIsInitialized (dist_is_initialized w)) (\<lambda>initialized.
         if initialized then call DistBarrier (dist_barrier w) else ret ())))
       else ret ())"

subsection \<open>LoadCheckpointHook\<close>

record LoadCheckpointHook =
  epoch :: int
  checkpoint_dir :: "string option"
  finetune :: bool
  strict :: bool
  priority :: int

text \<open>
  \<^verbatim>\<open>__init__(self, trainer=None, checkpoint_dir=None, epoch=-1, finetune=False,
  strict=False, priority=10)\<close>: the assertion comes first, then the arguments are stored.
\<close>

definition LoadCheckpointHook_init ::
  "bool \<Rightarrow> string option \<Rightarrow> int option \<Rightarrow> bool option \<Rightarrow> bool option \<Rightarrow> int option
     \<Rightarrow> error + LoadCheckpointHook" where
  "LoadCheckpointHook_init is_trainer checkpoint_dir_arg epoch_arg finetune_arg strict_arg
       priority_arg =
     (if \<not> is_trainer then Inl AssertionError
      else Inr \<lparr>epoch = (case epoch_arg of None \<Rightarrow> - 1 | Some e \<Rightarrow> e),
                checkpoint_dir = checkpoint_dir_arg,
                finetune = (case finetune_arg of None \<Rightarrow> False | Some b \<Rightarrow> b),
                strict = (case strict_arg of None \<Rightarrow> False | Some b \<Rightarrow> b),
                priority = (case priority_arg of None \<Rightarrow> 10 | Some p \<Rightarrow> p)\<rparr>)"

definition before_train :: "LoadCheckpointHook \<Rightarrow> env \<Rightarrow> unit run" where
  "before_train self w =
     bnd (if epoch self = - 1
          then call (GetLatestCheckpointPath (checkpoint_dir self))
                    (get_latest_checkpoint_path w (checkpoint_dir self))
          else call (GetCheckpointPath (checkpoint_dir self) (epoch self))
                    (get_checkpoint_path w (checkpoint_dir self) (epoch self))) (\<lambda>path.
     bnd (call (OspExists path) (osp_exists w path)) (\<lambda>exists.
     bnd (if exists then
            bnd (call (TrainerLoad path (finetune self) (strict self))
                      (load w path (finetune self) (strict self))) (\<lambda>_.
            call (LoggerInfo (loaded_message path)) (logger_info w (loaded_message path)))
          else raise (FileNotFoundError (not_found_message path))) (\<lambda>_.
     bnd (call DistIsInitialized (dist_is_initialized w)) (\<lambda>initialized.
     if initialized then call DistBarrier (dist_barrier w) else ret ()))))"

subsection \<open>Vocabulary of the properties\<close>

text \<open>Which collaborator a recorded call went to.\<close>

fun is_save :: "event \<Rightarrow> bool" where
  "is_save (TrainerSave d s) = True"
| "is_save _ = False"

fun is_load :: "event \<Rightarrow> bool" where
  "is_load (TrainerLoad p f s) = True"
| "is_load _ = False"

fun is_barrier :: "event \<Rightarrow> bool" where
  "is_barrier DistBarrier = True"
| "is_barrier _ = False"

fun is_latest_query :: "event \<Rightarrow> bool" where
  "is_latest_query (GetLatestCheckpointPath d) = True"
| "is_latest_query _ = False"

fun is_epoch_query :: "event \<Rightarrow> bool" where
  "is_epoch_query (GetCheckpointPath d e) = True"
| "is_epoch_query _ = False"

definition is_resolution :: "event \<Rightarrow> bool" where
  "is_resolution ev = (is_latest_query ev \<or> is_epoch_query ev)"

fun is_exists :: "event \<Rightarrow> bool" where
  "is_exists (OspExists p) = True"
| "is_exists _ = False"

text \<open>
  \<open>precedes P Q tr\<close>: in the trace \<open>tr\<close> every \<open>P\<close> call comes strictly before every
  \<open>Q\<close> call, that is, from a \<open>Q\<close> call on there is no \<open>P\<close> call.
\<close>

fun precedes :: "(event \<Rightarrow> bool) \<Rightarrow> (event \<Rightarrow> bool) \<Rightarrow> event list \<Rightarrow> bool" where
  "precedes P Q [] = True"
| "precedes P Q (x # xs) = ((Q x \<longrightarrow> \<not> list_ex P (x # xs)) \<and> precedes P Q xs)"

text \<open>
  The path resolution of \<^verbatim>\<open>before_train\<close> (its first statement): the query it sends
  and the answer of the resolver to that query.
\<close>

definition resolution_query :: "LoadCheckpointHook \<Rightarrow> event" where
  "resolution_query self =
     (if epoch self = - 1 then GetLatestCheckpointPath (checkpoint_dir self)
      else GetCheckpointPath (checkpoint_dir self) (epoch self))"

definition resolved :: "LoadCheckpointHook \<Rightarrow> env \<Rightarrow> exn + string" where
  "resolved self w =
     (if epoch self = - 1 then get_latest_checkpoint_path w (checkpoint_dir self)
      else get_checkpoint_path w (checkpoint_dir self) (epoch self))"

subsection \<open>Example collaborators\<close>

text \<open>
  Collaborators that never raise: the current epoch, the rank answer and the answer of
  \<^verbatim>\<open>dist.is_initialized()\<close> are given, the latest checkpoint is the one of epoch 7, and
  \<open>files\<close> lists the paths that exist.
\<close>

definition example_env :: "int \<Rightarrow> bool \<Rightarrow> bool \<Rightarrow> string list \<Rightarrow> env" where
  "example_env e rank_0 distributed files =
     \<lparr>cur_epoch = e,
      is_dp_rank_0 = Inr rank_0,
      save = (\<lambda>d s. Inr ()),
      load = (\<lambda>p f s. Inr ()),
      logger_info = (\<lambda>m. Inr ()),
      dist_is_initialized = Inr distributed,
      dist_barrier = Inr (),
      get_latest_checkpoint_path = (\<lambda>d. Inr (str_opt d @ ''/epoch_7.pt'')),
      get_checkpoint_path = (\<lambda>d n. Inr (str_opt d @ ''/epoch_'' @ str_int n @ ''.pt'')),
      osp_exists = (\<lambda>p. Inr (p \<in> set files))\<rparr>"

definition example_saver :: "int \<Rightarrow> SaveCheckpointHook" where
  "example_saver i =
     \<lparr>interval = i, SaveCheckpointHook.checkpoint_dir = Some ''/ckpt'', suffix = [],
      SaveCheckpointHook.priority = 0\<rparr>"

definition example_loader :: "int \<Rightarrow> LoadCheckpointHook" where
  "example_loader e =
     \<lparr>epoch = e, checkpoint_dir = Some ''/ckpt'', finetune = True, strict = False,
      priority = 10\<rparr>"

section \<open>Properties\<close>

subsection \<open>Traces and outcomes of the combinators\<close>

lemma trace_ret [simp]: "trace (ret v) = []"
  by (simp add: ret_def)

lemma outcome_ret [simp]: "outcome (ret v) = Inr v"
  by (simp add: ret_def)

lemma trace_raise [simp]: "trace (raise e) = []"
  by (simp add: raise_def)

lemma outcome_raise [simp]: "outcome (raise e) = Inl e"
  by (simp add: raise_def)

lemma trace_lift [simp]: "trace (lift r) = []"
  by (simp add: lift_def)

lemma outcome_lift [simp]: "outcome (lift r) = r"
  by (simp add: lift_def)

lemma trace_call [simp]: "trace (call ev r) = [ev]"
  by (simp add: call_def)

lemma outcome_call [simp]:
  "outcome (call ev r) = (case r of Inl x \<Rightarrow> Inl (Raised x) | Inr v \<Rightarrow> Inr v)"
  by (simp add: call_def)

lemma trace_bnd:
  "trace (bnd m f) = trace m @ (case outcome m of Inl e \<Rightarrow> [] | Inr v \<Rightarrow> trace (f v))"
  by (cases m) (simp add: bnd_def split: sum.splits prod.splits)

lemma outcome_bnd:
  "outcome (bnd m f) = (case outcome m of Inl e \<Rightarrow> Inl e | Inr v \<Rightarrow> outcome (f v))"
  by (cases m) (simp add: bnd_def split: sum.splits prod.splits)

subsection \<open>The trace and the outcome of each hook, statement by statement\<close>

lemma before_train_resolution:
  "before_train self w =
     bnd (call (resolution_query self) (resolved self w)) (\<lambda>path.
     bnd (call (OspExists path) (osp_exists w path)) (\<lambda>exists.
     bnd (if exists then
            bnd (call (TrainerLoad path (finetune self) (strict self))
                      (load w path (finetune self) (strict self))) (\<lambda>_.
            call (LoggerInfo (loaded_message path)) (logger_info w (loaded_message path)))
          else raise (FileNotFoundError (not_found_message path))) (\<lambda>_.
     bnd (call DistIsInitialized (dist_is_initialized w)) (\<lambda>initialized.
     if initialized then call DistBarrier (dist_barrier w) else ret ()))))"
  by (simp add: before_train_def resolved_def resolution_query_def)

lemma trace_before_train:
  "trace (before_train self w) =
     resolution_query self #
     (case resolved self w of Inl x \<Rightarrow> []
      | Inr p \<Rightarrow> OspExists p #
         (case osp_exists w p of Inl x \<Rightarrow> []
          | Inr ex \<Rightarrow>
              if ex then
                TrainerLoad p (finetune self) (strict self) #
                (case load w p (finetune self) (strict self) of Inl x \<Rightarrow> []
                 | Inr u \<Rightarrow> LoggerInfo (loaded_message p) #
                    (case logger_info w (loaded_message p) of Inl x \<Rightarrow> []
                     | Inr u \<Rightarrow> DistIsInitialized #
                        (case dist_is_initialized w of Inl x \<Rightarrow> []
                         | Inr ini \<Rightarrow> if ini then [DistBarrier] else [])))
              else []))"
  by (simp add: before_train_resolution trace_bnd outcome_bnd split: sum.split)

lemma outcome_before_train:
  "outcome (before_train self w) =
     (case resolved self w of Inl x \<Rightarrow> Inl (Raised x)
      | Inr p \<Rightarrow>
         (case osp_exists w p of Inl x \<Rightarrow> Inl (Raised x)
          | Inr ex \<Rightarrow>
              if ex then
                (case load w p (finetune self) (strict self) of Inl x \<Rightarrow> Inl (Raised x)
                 | Inr u \<Rightarrow>
                    (case logger_info w (loaded_message p) of Inl x \<Rightarrow> Inl (Raised x)
                     | Inr u \<Rightarrow>
                        (case dist_is_initialized w of Inl x \<Rightarrow> Inl (Raised x)
                         | Inr ini \<Rightarrow>
                             if ini then (case dist_barrier w of Inl x \<Rightarrow> Inl (Raised x)
                                          | Inr u \<Rightarrow> Inr ())
                             else Inr ())))
              else Inl (FileNotFoundError (not_found_message p))))"
  by (simp add: before_train_resolution trace_bnd outcome_bnd split: sum.split)

lemma trace_after_train_epoch:
  "trace (after_train_epoch self w) =
     (if interval self = 0 \<or> cur_epoch w mod interval self \<noteq> 0 then []
      else IsDpRank0 #
        (case is_dp_rank_0 w of Inl x \<Rightarrow> []
         | Inr rank_0 \<Rightarrow>
            (if rank_0 then
               TrainerSave (SaveCheckpointHook.checkpoint_dir self) (suffix self) #
               (case save w (SaveCheckpointHook.checkpoint_dir self) (suffix self) of
                  Inl x \<Rightarrow> []
                | Inr u \<Rightarrow>
                   LoggerInfo (saved_message (cur_epoch w) (SaveCheckpointHook.checkpoint_dir self)) #
                   (case logger_info w
                           (saved_message (cur_epoch w) (SaveCheckpointHook.checkpoint_dir self)) of
                      Inl x \<Rightarrow> []
                    | Inr u \<Rightarrow> DistIsInitialized #
                        (case dist_is_initialized w of Inl x \<Rightarrow> []
                         | Inr ini \<Rightarrow> if ini then [DistBarrier] else [])))
             else DistIsInitialized #
                    (case dist_is_initialized w of Inl x \<Rightarrow> []
                     | Inr ini \<Rightarrow> if ini then [DistBarrier] else []))))"
  by (simp add: after_train_epoch_def py_mod_def trace_bnd outcome_bnd split: sum.split)

lemma outcome_after_train_epoch:
  "outcome (after_train_epoch self w) =
     (if interval self = 0 then Inl ZeroDivisionError
      else if cur_epoch w mod interval self \<noteq> 0 then Inr ()
      else
        (case is_dp_rank_0 w of Inl x \<Rightarrow> Inl (Raised x)
         | Inr rank_0 \<Rightarrow>
            (case (if rank_0 then
                     (case save w (SaveCheckpointHook.checkpoint_dir self) (suffix self) of
                        Inl x \<Rightarrow> Inl (Raised x)
                      | Inr u \<Rightarrow>
                         (case logger_info w
                                 (saved_message (cur_epoch w)
                                    (SaveCheckpointHook.checkpoint_dir self)) of
                            Inl x \<Rightarrow> Inl (Raised x) | Inr u \<Rightarrow> Inr ()))
                   else Inr ()) of
               Inl e \<Rightarrow> Inl e
             | Inr u \<Rightarrow>
                (case dist_is_initialized w of Inl x \<Rightarrow> Inl (Raised x)
                 | Inr ini \<Rightarrow>
                     if ini then (case dist_barrier w of Inl x \<Rightarrow> Inl (Raised x)
                                  | Inr u \<Rightarrow> Inr ())
                     else Inr ()))))"
  by (simp add: after_train_epoch_def py_mod_def trace_bnd outcome_bnd split: sum.split)

subsection \<open>SaveCheckpointHook: when and by whom a checkpoint is written\<close>

text \<open>
  Claim C1. For every current epoch and every positive interval, \<^verbatim>\<open>after_train_epoch\<close>
  treats the epoch as a save point exactly when \<open>cur_epoch mod interval = 0\<close>. When the
  remainder is not zero it returns at once with an empty trace: no call to the save
  primitive, none to the barrier, none at all. When the remainder is zero it enters the
  save branch, whose first call is the rank query; and on the primary replica the save
  primitive is called if and only if the remainder is zero.
\<close>

theorem C1_save_point_iff_mod_zero:
  assumes "0 < interval self"
  shows "(cur_epoch w mod interval self \<noteq> 0 \<longrightarrow> after_train_epoch self w = ([], Inr ()))
       \<and> (cur_epoch w mod interval self = 0 \<longrightarrow>
            (\<exists>tr. trace (after_train_epoch self w) = IsDpRank0 # tr))
       \<and> (is_dp_rank_0 w = Inr True \<longrightarrow>
            (list_ex is_save (trace (after_train_epoch self w))
               \<longleftrightarrow> cur_epoch w mod interval self = 0))"
  using assms
  by (simp add: prod_eq_iff trace_after_train_epoch outcome_after_train_epoch split: sum.split)

text \<open>Interval 2: nothing happens at epoch 1 and at epoch 3, a save at epoch 2 and at epoch 4.\<close>

theorem C1_witness:
  "0 < interval (example_saver 2)
   \<and> after_train_epoch (example_saver 2) (example_env 1 True True []) = ([], Inr ())
   \<and> list_ex is_save (trace (after_train_epoch (example_saver 2) (example_env 2 True True [])))
   \<and> after_train_epoch (example_saver 2) (example_env 3 True True []) = ([], Inr ())
   \<and> list_ex is_save (trace (after_train_epoch (example_saver 2) (example_env 4 True True [])))"
  using C1_save_point_iff_mod_zero [of "example_saver 2" "example_env 1 True True []"]
    C1_save_point_iff_mod_zero [of "example_saver 2" "example_env 2 True True []"]
    C1_save_point_iff_mod_zero [of "example_saver 2" "example_env 3 True True []"]
    C1_save_point_iff_mod_zero [of "example_saver 2" "example_env 4 True True []"]
  by (simp add: example_saver_def example_env_def)

text \<open>
  Claim C4. At a save point only the primary data-parallel replica calls the save
  primitive: a save call in the trace means that the rank query answered \<open>True\<close>, and
  then there is exactly one, with the configured directory and suffix. A replica whose
  rank query answers \<open>False\<close> never calls the save primitive, and still enters the barrier
  (once) when \<^verbatim>\<open>dist.is_initialized()\<close> answers \<open>True\<close>.
\<close>

theorem C4_only_primary_saves:
  assumes "interval self \<noteq> 0" and "cur_epoch w mod interval self = 0"
  shows "(list_ex is_save (trace (after_train_epoch self w)) \<longrightarrow> is_dp_rank_0 w = Inr True)
       \<and> (is_dp_rank_0 w = Inr True \<longrightarrow>
            filter is_save (trace (after_train_epoch self w))
              = [TrainerSave (SaveCheckpointHook.checkpoint_dir self) (suffix self)])
       \<and> (is_dp_rank_0 w = Inr False \<longrightarrow>
            \<not> list_ex is_save (trace (after_train_epoch self w))
            \<and> (dist_is_initialized w = Inr True \<longrightarrow>
                 filter is_barrier (trace (after_train_epoch self w)) = [DistBarrier]))"
  using assms
  by (simp add: trace_after_train_epoch split: sum.split)

text \<open>A non-primary replica at epoch 4 with interval 2: no save, the barrier is entered.\<close>

theorem C4_witness:
  "interval (example_saver 2) \<noteq> 0
   \<and> cur_epoch (example_env 4 False True []) mod interval (example_saver 2) = 0
   \<and> is_dp_rank_0 (example_env 4 False True []) = Inr False
   \<and> dist_is_initialized (example_env 4 False True []) = Inr True
   \<and> trace (after_train_epoch (example_saver 2) (example_env 4 False True []))
       = [IsDpRank0, DistIsInitialized, DistBarrier]
   \<and> \<not> list_ex is_save (trace (after_train_epoch (example_saver 2) (example_env 4 False True [])))
   \<and> filter is_barrier (trace (after_train_epoch (example_saver 2) (example_env 4 False True [])))
       = [DistBarrier]"
  using C4_only_primary_saves [of "example_saver 2" "example_env 4 False True []"]
  by (simp add: example_saver_def example_env_def trace_after_train_epoch)

text \<open>
  Claim C10. With a positive interval the save-point test is well defined for every
  current epoch: \<^verbatim>\<open>%\<close> returns the remainder, \<^verbatim>\<open>after_train_epoch\<close> never ends in a
  \<open>ZeroDivisionError\<close>, and it returns normally whenever the collaborators it calls do.
  With interval 0, which the constructor accepts, the test itself raises
  \<open>ZeroDivisionError\<close> before any call is made.
\<close>

theorem C10_positive_interval_makes_modulo_total:
  "(0 < interval self \<longrightarrow>
      py_mod (cur_epoch w) (interval self) = Inr (cur_epoch w mod interval self)
      \<and> outcome (after_train_epoch self w) \<noteq> Inl ZeroDivisionError)
   \<and> (0 < interval self \<and> \<not> isl (is_dp_rank_0 w)
        \<and> \<not> isl (save w (SaveCheckpointHook.checkpoint_dir self) (suffix self))
        \<and> \<not> isl (logger_info w
                    (saved_message (cur_epoch w) (SaveCheckpointHook.checkpoint_dir self)))
        \<and> \<not> isl (dist_is_initialized w) \<and> \<not> isl (dist_barrier w)
      \<longrightarrow> outcome (after_train_epoch self w) = Inr ())
   \<and> (interval self = 0 \<longrightarrow> after_train_epoch self w = ([], Inl ZeroDivisionError))
   \<and> (\<exists>h. SaveCheckpointHook_init True (Some 0) d s pr = Inr h \<and> interval h = 0)"
  by (simp add: prod_eq_iff trace_after_train_epoch outcome_after_train_epoch py_mod_def
        SaveCheckpointHook_init_def split: sum.split)

theorem C10_witness:
  "0 < interval (example_saver 3)
   \<and> py_mod (cur_epoch (example_env 7 True True [])) (interval (example_saver 3)) = Inr 1
   \<and> outcome (after_train_epoch (example_saver 3) (example_env 7 True True [])) = Inr ()
   \<and> outcome (after_train_epoch (example_saver 3) (example_env 6 True True [])) = Inr ()
   \<and> interval (example_saver 0) = 0
   \<and> after_train_epoch (example_saver 0) (example_env 6 True True [])
       = ([], Inl ZeroDivisionError)"
  using C10_positive_interval_makes_modulo_total
          [of "example_saver 3" "example_env 7 True True []"]
    C10_positive_interval_makes_modulo_total
          [of "example_saver 3" "example_env 6 True True []"]
    C10_positive_interval_makes_modulo_total
          [of "example_saver 0" "example_env 6 True True []"]
  by (simp add: example_saver_def example_env_def)

subsection \<open>LoadCheckpointHook: which checkpoint is loaded\<close>

text \<open>
  Claim C2. In every call of \<^verbatim>\<open>before_train\<close>: when the configured epoch is \<open>-1\<close> the
  only resolution query is the latest-checkpoint query on the checkpoint directory; when
  the configured epoch is non-negative the only resolution query is the exact-epoch query
  with the directory and that epoch; and whatever the epoch, the latest-checkpoint
  queries and the exact-epoch queries of the call number exactly one together.
\<close>

theorem C2_exactly_one_resolution_query:
  "(epoch self = - 1 \<longrightarrow>
      filter is_resolution (trace (before_train self w))
        = [GetLatestCheckpointPath (checkpoint_dir self)])
   \<and> (0 \<le> epoch self \<longrightarrow>
      filter is_resolution (trace (before_train self w))
        = [GetCheckpointPath (checkpoint_dir self) (epoch self)])
   \<and> length (filter is_latest_query (trace (before_train self w)))
       + length (filter is_epoch_query (trace (before_train self w))) = 1"
  by (simp add: trace_before_train resolution_query_def is_resolution_def split: sum.split)

theorem C2_witness:
  "epoch (example_loader (- 1)) = - 1
   \<and> filter is_resolution
        (trace (before_train (example_loader (- 1)) (example_env 0 True True [])))
       = [GetLatestCheckpointPath (Some ''/ckpt'')]
   \<and> 0 \<le> epoch (example_loader 5)
   \<and> filter is_resolution
        (trace (before_train (example_loader 5) (example_env 0 True True [])))
       = [GetCheckpointPath (Some ''/ckpt'') 5]"
  using C2_exactly_one_resolution_query [of "example_loader (- 1)" "example_env 0 True True []"]
    C2_exactly_one_resolution_query [of "example_loader 5" "example_env 0 True True []"]
  by (simp add: example_loader_def)

text \<open>
  Claim C8. For every configured epoch below \<open>-1\<close> the only resolution query of
  \<^verbatim>\<open>before_train\<close> is the exact-epoch query with that negative epoch; a latest-checkpoint
  query is made if and only if the configured epoch is \<open>-1\<close>.
\<close>

theorem C8_only_minus_one_is_latest:
  "(epoch self < - 1 \<longrightarrow>
      filter is_resolution (trace (before_train self w))
        = [GetCheckpointPath (checkpoint_dir self) (epoch self)])
   \<and> (list_ex is_latest_query (trace (before_train self w)) \<longleftrightarrow> epoch self = - 1)"
  by (simp add: trace_before_train resolution_query_def is_resolution_def split: sum.split)

theorem C8_witness:
  "epoch (example_loader (- 2)) < - 1
   \<and> filter is_resolution
        (trace (before_train (example_loader (- 2)) (example_env 0 True True [])))
       = [GetCheckpointPath (Some ''/ckpt'') (- 2)]
   \<and> \<not> list_ex is_latest_query
          (trace (before_train (example_loader (- 2)) (example_env 0 True True [])))"
  using C8_only_minus_one_is_latest [of "example_loader (- 2)" "example_env 0 True True []"]
  by (simp add: example_loader_def)

subsection \<open>LoadCheckpointHook: missing and existing checkpoints\<close>

text \<open>
  Claim C3. When the resolver answers a path and \<^verbatim>\<open>osp.exists\<close> answers \<open>False\<close> for
  it, \<^verbatim>\<open>before_train\<close> ends in a \<open>FileNotFoundError\<close> whose message is
  \<^verbatim>\<open>checkpoint is not found at\<close> followed by exactly that path, and the load primitive
  is not called.
\<close>

theorem C3_missing_checkpoint_not_found:
  assumes "resolved self w = Inr p" and "osp_exists w p = Inr False"
  shows "outcome (before_train self w)
           = Inl (FileNotFoundError (''checkpoint is not found at '' @ p))
       \<and> \<not> list_ex is_load (trace (before_train self w))"
  using assms
  by (simp add: trace_before_train outcome_before_train resolution_query_def
        not_found_message_def)

text \<open>Epoch 5 in \<^verbatim>\<open>/ckpt\<close>, resolved to \<^verbatim>\<open>/ckpt/epoch_5.pt\<close>, which does not exist.\<close>

theorem C3_witness:
  "resolved (example_loader 5) (example_env 0 True True []) = Inr ''/ckpt/epoch_5.pt''
   \<and> osp_exists (example_env 0 True True []) ''/ckpt/epoch_5.pt'' = Inr False
   \<and> outcome (before_train (example_loader 5) (example_env 0 True True []))
       = Inl (FileNotFoundError ''checkpoint is not found at /ckpt/epoch_5.pt'')
   \<and> \<not> list_ex is_load (trace (before_train (example_loader 5) (example_env 0 True True [])))"
proof -
  have r: "resolved (example_loader 5) (example_env 0 True True []) = Inr ''/ckpt/epoch_5.pt''"
    by (simp add: resolved_def example_loader_def example_env_def str_opt_def str_int_def
          str_nat.simps)
  have e: "osp_exists (example_env 0 True True []) ''/ckpt/epoch_5.pt'' = Inr False"
    by (simp add: example_env_def)
  from C3_missing_checkpoint_not_found [OF r e] r e show ?thesis
    by simp
qed

text \<open>
  Claim C5. When the resolver answers a path and \<^verbatim>\<open>osp.exists\<close> answers \<open>True\<close> for it,
  \<^verbatim>\<open>before_train\<close> calls the load primitive exactly once, with that path and with the
  \<^verbatim>\<open>finetune\<close> and \<^verbatim>\<open>strict\<close> values that the constructor was given (\<open>False\<close> for one
  left out).
\<close>

theorem C5_load_once_with_configured_flags:
  assumes "LoadCheckpointHook_init is_trainer d e f s pr = Inr self"
    and "resolved self w = Inr p" and "osp_exists w p = Inr True"
  shows "filter is_load (trace (before_train self w))
           = [TrainerLoad p (case f of None \<Rightarrow> False | Some b \<Rightarrow> b)
                            (case s of None \<Rightarrow> False | Some b \<Rightarrow> b)]"
proof -
  from assms(1) have "finetune self = (case f of None \<Rightarrow> False | Some b \<Rightarrow> b)"
    and "strict self = (case s of None \<Rightarrow> False | Some b \<Rightarrow> b)"
    by (auto simp: LoadCheckpointHook_init_def split: if_splits)
  with assms(2,3) show ?thesis
    by (simp add: trace_before_train resolution_query_def split: sum.split)
qed

text \<open>
  Epoch \<open>-1\<close> (the default) in \<^verbatim>\<open>/ckpt\<close>, the latest checkpoint is
  \<^verbatim>\<open>/ckpt/epoch_7.pt\<close> and exists: it is loaded, with the flags of the constructor.
\<close>

theorem C5_witness:
  "LoadCheckpointHook_init True (Some ''/ckpt'') None (Some True) (Some False) None
     = Inr (example_loader (- 1))
   \<and> resolved (example_loader (- 1)) (example_env 0 True True [''/ckpt/epoch_7.pt''])
       = Inr ''/ckpt/epoch_7.pt''
   \<and> osp_exists (example_env 0 True True [''/ckpt/epoch_7.pt'']) ''/ckpt/epoch_7.pt'' = Inr True
   \<and> filter is_load
        (trace (before_train (example_loader (- 1))
                  (example_env 0 True True [''/ckpt/epoch_7.pt''])))
       = [TrainerLoad ''/ckpt/epoch_7.pt'' True False]"
proof -
  have i: "LoadCheckpointHook_init True (Some ''/ckpt'') None (Some True) (Some False) None
             = Inr (example_loader (- 1))"
    by (simp add: LoadCheckpointHook_init_def example_loader_def)
  have r: "resolved (example_loader (- 1)) (example_env 0 True True [''/ckpt/epoch_7.pt''])
             = Inr ''/ckpt/epoch_7.pt''"
    by (simp add: resolved_def example_loader_def example_env_def str_opt_def)
  have e: "osp_exists (example_env 0 True True [''/ckpt/epoch_7.pt'']) ''/ckpt/epoch_7.pt''
             = Inr True"
    by (simp add: example_env_def)
  from C5_load_once_with_configured_flags [OF i r e] i r e show ?thesis
    by simp
qed

text \<open>
  Claim C9. When \<^verbatim>\<open>before_train\<close> fails with \<open>FileNotFoundError\<close> because the resolved
  path does not exist, the trace holds neither the barrier nor the
  \<^verbatim>\<open>dist.is_initialized()\<close> query before it. A barrier call in the trace means that the
  path was resolved, exists, and that the load primitive returned normally.
\<close>

theorem C9_no_barrier_after_not_found:
  "(resolved self w = Inr p \<and> osp_exists w p = Inr False
      \<longrightarrow> outcome (before_train self w) = Inl (FileNotFoundError (not_found_message p))
        \<and> \<not> list_ex is_barrier (trace (before_train self w))
        \<and> DistIsInitialized \<notin> set (trace (before_train self w)))
   \<and> (list_ex is_barrier (trace (before_train self w))
      \<longrightarrow> (\<exists>q. resolved self w = Inr q \<and> osp_exists w q = Inr True
             \<and> load w q (finetune self) (strict self) = Inr ()))"
  by (simp add: trace_before_train outcome_before_train resolution_query_def split: sum.split)

theorem C9_witness:
  "resolved (example_loader 5) (example_env 0 True True [''/ckpt/epoch_7.pt''])
     = Inr ''/ckpt/epoch_5.pt''
   \<and> osp_exists (example_env 0 True True [''/ckpt/epoch_7.pt'']) ''/ckpt/epoch_5.pt''
       = Inr False
   \<and> trace (before_train (example_loader 5) (example_env 0 True True [''/ckpt/epoch_7.pt'']))
       = [GetCheckpointPath (Some ''/ckpt'') 5, OspExists ''/ckpt/epoch_5.pt'']
   \<and> \<not> list_ex is_barrier
          (trace (before_train (example_loader 5)
                    (example_env 0 True True [''/ckpt/epoch_7.pt''])))
   \<and> list_ex is_barrier
        (trace (before_train (example_loader (- 1))
                  (example_env 0 True True [''/ckpt/epoch_7.pt''])))
   \<and> load (example_env 0 True True [''/ckpt/epoch_7.pt'']) ''/ckpt/epoch_7.pt'' True False
       = Inr ()"
proof -
  have r: "resolved (example_loader 5) (example_env 0 True True [''/ckpt/epoch_7.pt''])
             = Inr ''/ckpt/epoch_5.pt''"
    by (simp add: resolved_def example_loader_def example_env_def str_opt_def str_int_def
          str_nat.simps)
  have e: "osp_exists (example_env 0 True True [''/ckpt/epoch_7.pt'']) ''/ckpt/epoch_5.pt''
             = Inr False"
    by (simp add: example_env_def)
  have r': "resolved (example_loader (- 1)) (example_env 0 True True [''/ckpt/epoch_7.pt''])
              = Inr ''/ckpt/epoch_7.pt''"
    by (simp add: resolved_def example_loader_def example_env_def str_opt_def)
  have t: "trace (before_train (example_loader 5)
                    (example_env 0 True True [''/ckpt/epoch_7.pt'']))
             = [GetCheckpointPath (Some ''/ckpt'') 5, OspExists ''/ckpt/epoch_5.pt'']"
    by (simp add: trace_before_train r e) (simp add: resolution_query_def example_loader_def)
  have b: "list_ex is_barrier
             (trace (before_train (example_loader (- 1))
                       (example_env 0 True True [''/ckpt/epoch_7.pt''])))"
    by (simp add: trace_before_train r') (simp add: example_env_def)
  from C9_no_barrier_after_not_found
         [of "example_loader 5" "example_env 0 True True [''/ckpt/epoch_7.pt'']"
             "''/ckpt/epoch_5.pt''"]
    C9_no_barrier_after_not_found
         [of "example_loader (- 1)" "example_env 0 True True [''/ckpt/epoch_7.pt'']"]
    r e r' t b
  show ?thesis
    by (simp add: example_loader_def)
qed

subsection \<open>Order of the calls and propagation of failures\<close>

text \<open>
  Claim C6. Within one run the calls come in a fixed order. In \<^verbatim>\<open>after_train_epoch\<close>
  every save call strictly precedes every barrier call, and on the primary replica a
  barrier call is there only after a save call. In \<^verbatim>\<open>before_train\<close> the resolution
  query strictly precedes the existence check, which strictly precedes the load call,
  which strictly precedes the barrier call; and each of the later calls is made only when
  the one before it was made.
\<close>

theorem C6_fixed_order_of_calls:
  "precedes is_save is_barrier (trace (after_train_epoch saver w))
   \<and> (is_dp_rank_0 w = Inr True \<and> list_ex is_barrier (trace (after_train_epoch saver w))
        \<longrightarrow> list_ex is_save (trace (after_train_epoch saver w)))
   \<and> precedes is_resolution is_exists (trace (before_train loader w))
   \<and> precedes is_exists is_load (trace (before_train loader w))
   \<and> precedes is_load is_barrier (trace (before_train loader w))
   \<and> (list_ex is_barrier (trace (before_train loader w))
        \<longrightarrow> list_ex is_load (trace (before_train loader w)))
   \<and> (list_ex is_load (trace (before_train loader w))
        \<longrightarrow> list_ex is_exists (trace (before_train loader w)))
   \<and> (list_ex is_exists (trace (before_train loader w))
        \<longrightarrow> list_ex is_resolution (trace (before_train loader w)))"
proof -
  have s1: "precedes is_save is_barrier (trace (after_train_epoch saver w))"
    by (simp add: trace_after_train_epoch split: sum.split)
  have s2: "is_dp_rank_0 w = Inr True \<and> list_ex is_barrier (trace (after_train_epoch saver w))
              \<longrightarrow> list_ex is_save (trace (after_train_epoch saver w))"
    by (simp add: trace_after_train_epoch split: sum.split)
  have q: "is_resolution (resolution_query loader)" "\<not> is_exists (resolution_query loader)"
    "\<not> is_load (resolution_query loader)" "\<not> is_barrier (resolution_query loader)"
    by (simp_all add: resolution_query_def is_resolution_def)
  have l1: "precedes is_resolution is_exists (trace (before_train loader w))"
    by (simp add: trace_before_train q is_resolution_def split: sum.split)
  have l2: "precedes is_exists is_load (trace (before_train loader w))"
    by (simp add: trace_before_train q split: sum.split)
  have l3: "precedes is_load is_barrier (trace (before_train loader w))"
    by (simp add: trace_before_train q split: sum.split)
  have l4: "list_ex is_barrier (trace (before_train loader w))
              \<longrightarrow> list_ex is_load (trace (before_train loader w))"
    by (simp add: trace_before_train q split: sum.split)
  have l5: "list_ex is_load (trace (before_train loader w))
              \<longrightarrow> list_ex is_exists (trace (before_train loader w))"
    by (simp add: trace_before_train q split: sum.split)
  have l6: "list_ex is_exists (trace (before_train loader w))
              \<longrightarrow> list_ex is_resolution (trace (before_train loader w))"
    by (simp add: trace_before_train q split: sum.split)
  from s1 s2 l1 l2 l3 l4 l5 l6 show ?thesis
    by blast
qed

text \<open>
  Epoch 4 with interval 2 on the primary replica, and epoch \<open>-1\<close> with an existing latest
  checkpoint: the two full traces.
\<close>

theorem C6_witness:
  "trace (after_train_epoch (example_saver 2) (example_env 4 True True [''/ckpt/epoch_7.pt'']))
     = [IsDpRank0, TrainerSave (Some ''/ckpt'') [],
        LoggerInfo (saved_message 4 (Some ''/ckpt'')), DistIsInitialized, DistBarrier]
   \<and> precedes is_save is_barrier
        (trace (after_train_epoch (example_saver 2)
                  (example_env 4 True True [''/ckpt/epoch_7.pt''])))
   \<and> trace (before_train (example_loader (- 1)) (example_env 4 True True [''/ckpt/epoch_7.pt'']))
       = [GetLatestCheckpointPath (Some ''/ckpt''), OspExists ''/ckpt/epoch_7.pt'',
          TrainerLoad ''/ckpt/epoch_7.pt'' True False,
          LoggerInfo (loaded_message ''/ckpt/epoch_7.pt''), DistIsInitialized, DistBarrier]
   \<and> precedes is_resolution is_exists
        (trace (before_train (example_loader (- 1))
                  (example_env 4 True True [''/ckpt/epoch_7.pt''])))
   \<and> precedes is_exists is_load
        (trace (before_train (example_loader (- 1))
                  (example_env 4 True True [''/ckpt/epoch_7.pt''])))
   \<and> precedes is_load is_barrier
        (trace (before_train (example_loader (- 1))
                  (example_env 4 True True [''/ckpt/epoch_7.pt''])))"
proof -
  have s: "trace (after_train_epoch (example_saver 2)
                    (example_env 4 True True [''/ckpt/epoch_7.pt'']))
             = [IsDpRank0, TrainerSave (Some ''/ckpt'') [],
                LoggerInfo (saved_message 4 (Some ''/ckpt'')), DistIsInitialized, DistBarrier]"
    by (simp add: trace_after_train_epoch example_saver_def example_env_def)
  have r: "resolved (example_loader (- 1)) (example_env 4 True True [''/ckpt/epoch_7.pt''])
             = Inr ''/ckpt/epoch_7.pt''"
    by (simp add: resolved_def example_loader_def example_env_def str_opt_def)
  have l: "trace (before_train (example_loader (- 1))
                    (example_env 4 True True [''/ckpt/epoch_7.pt'']))
             = [GetLatestCheckpointPath (Some ''/ckpt''), OspExists ''/ckpt/epoch_7.pt'',
                TrainerLoad ''/ckpt/epoch_7.pt'' True False,
                LoggerInfo (loaded_message ''/ckpt/epoch_7.pt''), DistIsInitialized,
                DistBarrier]"
    by (simp add: trace_before_train r)
       (simp add: resolution_query_def example_loader_def example_env_def)
  from C6_fixed_order_of_calls
         [of "example_saver 2" "example_env 4 True True [''/ckpt/epoch_7.pt'']"
             "example_loader (- 1)"]
    s l
  show ?thesis
    by simp
qed

text \<open>
  Claim C7. Neither hook recovers or retries. When the save primitive raises on the
  primary replica at a save point, \<^verbatim>\<open>after_train_epoch\<close> ends in that same exception
  and its trace stops at the one save call. When the load primitive raises on an existing
  checkpoint, \<^verbatim>\<open>before_train\<close> ends in that same exception and its trace stops at the
  one load call.
\<close>

theorem C7_failures_propagate_without_retry:
  "(interval saver \<noteq> 0 \<and> cur_epoch w mod interval saver = 0 \<and> is_dp_rank_0 w = Inr True
      \<and> save w (SaveCheckpointHook.checkpoint_dir saver) (suffix saver) = Inl x
    \<longrightarrow> after_train_epoch saver w
          = ([IsDpRank0, TrainerSave (SaveCheckpointHook.checkpoint_dir saver) (suffix saver)],
             Inl (Raised x)))
   \<and> (resolved loader w = Inr p \<and> osp_exists w p = Inr True
      \<and> load w p (finetune loader) (strict loader) = Inl y
    \<longrightarrow> before_train loader w
          = ([resolution_query loader, OspExists p,
              TrainerLoad p (finetune loader) (strict loader)],
             Inl (Raised y)))"
  by (simp add: prod_eq_iff trace_after_train_epoch outcome_after_train_epoch
        trace_before_train outcome_before_train)

text \<open>A storage that refuses the write, and a checkpoint that cannot be read.\<close>

theorem C7_witness:
  "after_train_epoch (example_saver 2)
     ((example_env 4 True True [''/ckpt/epoch_7.pt''])
        \<lparr>save := \<lambda>d s. Inl ''OSError'', load := \<lambda>p f s. Inl ''RuntimeError''\<rparr>)
     = ([IsDpRank0, TrainerSave (Some ''/ckpt'') []], Inl (Raised ''OSError''))
   \<and> before_train (example_loader (- 1))
       ((example_env 4 True True [''/ckpt/epoch_7.pt''])
          \<lparr>save := \<lambda>d s. Inl ''OSError'', load := \<lambda>p f s. Inl ''RuntimeError''\<rparr>)
     = ([GetLatestCheckpointPath (Some ''/ckpt''), OspExists ''/ckpt/epoch_7.pt'',
         TrainerLoad ''/ckpt/epoch_7.pt'' True False],
        Inl (Raised ''RuntimeError''))"
proof -
  have r: "resolved (example_loader (- 1))
             ((example_env 4 True True [''/ckpt/epoch_7.pt''])
                \<lparr>save := \<lambda>d s. Inl ''OSError'', load := \<lambda>p f s. Inl ''RuntimeError''\<rparr>)
             = Inr ''/ckpt/epoch_7.pt''"
    by (simp add: resolved_def example_loader_def example_env_def str_opt_def)
  from C7_failures_propagate_without_retry
         [of "example_saver 2"
             "(example_env 4 True True [''/ckpt/epoch_7.pt''])
                \<lparr>save := \<lambda>d s. Inl ''OSError'', load := \<lambda>p f s. Inl ''RuntimeError''\<rparr>"
             "''OSError''" "example_loader (- 1)" "''/ckpt/epoch_7.pt''" "''RuntimeError''"]
    r
  show ?thesis
    by (simp add: example_saver_def example_loader_def example_env_def resolution_query_def)
qed

end
